theory Spec2Isabelle
  imports Main "HOL-Library.Word"
begin

section \<open>JavaScript values used by the route\<close>

text \<open>
  A JavaScript string is a sequence of UTF-16 code units; \<open>length\<close> counts code units,
  as \<^verbatim>\<open>String.prototype.length\<close> does. ASCII literals of the source are written with
  \<open>js_str\<close>.
\<close>

type_synonym jschar = "16 word"
type_synonym jsstring = "jschar list"

definition js_str :: "string \<Rightarrow> jsstring" where
  "js_str s = map (\<lambda>c. word_of_nat (of_char c)) s"

text \<open>
  A value of type \<^verbatim>\<open>string | undefined\<close> (or \<^verbatim>\<open>string | null\<close>) is a
  \<open>jsstring option\<close>. It is truthy when it is a non-empty string.
\<close>

definition truthy :: "jsstring option \<Rightarrow> bool" where
  "truthy x = (case x of None \<Rightarrow> False | Some s \<Rightarrow> s \<noteq> [])"

text \<open>\<^verbatim>\<open>a || b\<close> on such values.\<close>

definition js_or :: "jsstring option \<Rightarrow> jsstring option \<Rightarrow> jsstring option" where
  "js_or a b = (if truthy a then a else b)"

text \<open>
  \<^verbatim>\<open>String.prototype.trim\<close> removes the code units of WhiteSpace and LineTerminator
  from both ends.
\<close>

definition is_js_whitespace :: "jschar \<Rightarrow> bool" where
  "is_js_whitespace c =
     (c \<in> {0x0009, 0x000A, 0x000B, 0x000C, 0x000D, 0x0020, 0x00A0, 0x1680,
            0x2000, 0x2001, 0x2002, 0x2003, 0x2004, 0x2005, 0x2006, 0x2007,
            0x2008, 0x2009, 0x200A, 0x2028, 0x2029, 0x202F, 0x205F, 0x3000, 0xFEFF})"

definition trim :: "jsstring \<Rightarrow> jsstring" where
  "trim s = rev (dropWhile is_js_whitespace (rev (dropWhile is_js_whitespace s)))"

text \<open>
  The numbers of \<^verbatim>\<open>handleTextareaChange\<close>: integers (pixel counts, row counts), the
  \<^verbatim>\<open>NaN\<close> that \<^verbatim>\<open>parseInt\<close> returns on a value without leading digits, and the
  infinities that a division by zero produces. Negative zero is identified with zero:
  it compares and converts like zero, and no divisor of the handler can be \<open>-0\<close>
  (a computed line height is never negative).
\<close>

datatype jsnum = Num int | NaN | PosInf | NegInf

fun js_sub :: "jsnum \<Rightarrow> jsnum \<Rightarrow> jsnum" where
  "js_sub (Num a) (Num b) = Num (a - b)"
| "js_sub NaN _ = NaN"
| "js_sub _ NaN = NaN"
| "js_sub PosInf PosInf = NaN"
| "js_sub NegInf NegInf = NaN"
| "js_sub PosInf _ = PosInf"
| "js_sub NegInf _ = NegInf"
| "js_sub (Num a) PosInf = NegInf"
| "js_sub (Num a) NegInf = PosInf"

text \<open>
  \<^verbatim>\<open>Math.floor(x / y)\<close>. For integers below \<open>2^53\<close> in absolute value the floor of the
  floating-point quotient is the floor of the exact quotient, which is \<open>div\<close> on \<open>int\<close>.
\<close>

fun js_floor_div :: "jsnum \<Rightarrow> jsnum \<Rightarrow> jsnum" where
  "js_floor_div (Num a) (Num b) =
     (if b \<noteq> 0 then Num (a div b)
      else if 0 < a then PosInf else if a < 0 then NegInf else NaN)"
| "js_floor_div NaN _ = NaN"
| "js_floor_div _ NaN = NaN"
| "js_floor_div (Num a) _ = Num 0"
| "js_floor_div PosInf (Num b) = (if b < 0 then NegInf else PosInf)"
| "js_floor_div NegInf (Num b) = (if b < 0 then PosInf else NegInf)"
| "js_floor_div _ _ = NaN"

text \<open>\<^verbatim>\<open>x >= y\<close>: false as soon as one side is \<^verbatim>\<open>NaN\<close>.\<close>

fun js_ge :: "jsnum \<Rightarrow> jsnum \<Rightarrow> bool" where
  "js_ge (Num a) (Num b) = (b \<le> a)"
| "js_ge NaN _ = False"
| "js_ge _ NaN = False"
| "js_ge PosInf _ = True"
| "js_ge _ NegInf = True"
| "js_ge _ _ = False"

section \<open>The request handler \<^verbatim>\<open>action\<close>\<close>

text \<open>\<^verbatim>\<open>ReturnedDataProps\<close>. At run time \<^verbatim>\<open>answer\<close> can be undefined too, since it is
  \<^verbatim>\<open>response.output?.text\<close> under a cast.\<close>

record returned_data =
  d_message :: "jsstring option"
  answer :: "jsstring option"
  d_error :: "jsstring option"
  d_sessionId :: "jsstring option"

text \<open>The two fields the handler reads from the posted form; \<open>None\<close> is the
  \<^verbatim>\<open>null\<close> of an absent field.\<close>

record form_body =
  f_message :: "jsstring option"
  f_sessionId :: "jsstring option"

text \<open>\<^verbatim>\<open>process.env.KNOWLEDGE_BASE_ID\<close> and \<^verbatim>\<open>process.env.MODEL_ARN\<close>.\<close>

record environment =
  KNOWLEDGE_BASE_ID :: "jsstring option"
  MODEL_ARN :: "jsstring option"

text \<open>
  \<^verbatim>\<open>RetrieveAndGenerateCommandInput\<close> as the handler fills it. The wrappers that hold one
  field only (\<^verbatim>\<open>input\<close>, \<^verbatim>\<open>retrievalConfiguration.vectorSearchConfiguration\<close>,
  \<^verbatim>\<open>promptTemplate\<close>, \<^verbatim>\<open>inferenceConfig\<close>) are folded into their parent.
\<close>

record text_inference_config =
  temperature :: int
  topP :: int
  maxTokens :: int
  stopSequences :: "jsstring list"

record generation_configuration =
  textPromptTemplate :: jsstring
  textInferenceConfig :: text_inference_config

record knowledge_base_configuration =
  knowledgeBaseId :: "jsstring option"
  modelArn :: "jsstring option"
  numberOfResults :: int
  generationConfiguration :: generation_configuration

datatype rag_type = KNOWLEDGE_BASE

record rag_input =
  input_text :: "jsstring option"
  rag_configuration_type :: rag_type
  knowledgeBaseConfiguration :: knowledge_base_configuration
  i_sessionId :: "jsstring option"

text \<open>The part of the service's response the handler reads: \<^verbatim>\<open>output?.text\<close> and
  \<^verbatim>\<open>sessionId\<close>.\<close>

record rag_output =
  output_text :: "jsstring option"

record rag_response =
  r_output :: "rag_output option"
  r_sessionId :: "jsstring option"

text \<open>A thrown value: an object whose \<^verbatim>\<open>message\<close> may be missing.\<close>

record js_error =
  e_message :: "jsstring option"

text \<open>
  The external collaborator: \<^verbatim>\<open>new BedrockAgentRuntimeClient()\<close> may throw, and
  \<^verbatim>\<open>client.send(command)\<close> either throws (or rejects) or resolves to a response.
\<close>

record service =
  new_client :: "js_error option"
  send :: "rag_input \<Rightarrow> js_error + rag_response"

definition prompt_template :: jsstring where
  "prompt_template = js_str
     (''You are a question answering agent. I will provide you with a set of search results. '' @
      ''The user will provide you with a question. Your job is to answer the user's question '' @
      ''using only information from the search results. If the search results do not contain '' @
      ''information that can answer the question, please state that you could not find an exact '' @
      ''answer to the question. '' @ [CHR 0x0A] @
      ''Just because the user asserts a fact does not mean it is true, make sure to double check '' @
      ''the search results to validate a user's assertion.'' @ [CHR 0x0A, CHR 0x0A] @
      ''Here are the search results in numbered order:'' @ [CHR 0x0A] @
      ''$search_results$'' @ [CHR 0x0A, CHR 0x0A] @
      ''$output_format_instructions$'' @ [CHR 0x0A, CHR 0x0A] @
      ''Here is the user's query:'' @ [CHR 0x0A] @
      ''$query$'')"

definition external_call :: "service \<Rightarrow> rag_input \<Rightarrow> js_error + rag_response" where
  "external_call svc inp = (case new_client svc of Some e \<Rightarrow> Inl e | None \<Rightarrow> send svc inp)"

text \<open>The object \<^verbatim>\<open>input\<close> of the handler, with \<^verbatim>\<open>sessionId\<close> set only under
  \<^verbatim>\<open>if (sessionId)\<close>.\<close>

definition action_input :: "form_body \<Rightarrow> environment \<Rightarrow> rag_input" where
  "action_input body env =
     \<lparr>input_text = f_message body,
      rag_configuration_type = KNOWLEDGE_BASE,
      knowledgeBaseConfiguration =
        \<lparr>knowledgeBaseId = KNOWLEDGE_BASE_ID env,
         modelArn = MODEL_ARN env,
         numberOfResults = 5,
         generationConfiguration =
           \<lparr>textPromptTemplate = prompt_template,
            textInferenceConfig =
              \<lparr>temperature = 0, topP = 1, maxTokens = 2048,
               stopSequences = [js_str (CHR 0x0A # ''Observation'')]\<rparr>\<rparr>\<rparr>,
      i_sessionId = (if truthy (f_sessionId body) then f_sessionId body else None)\<rparr>"

text \<open>The \<^verbatim>\<open>try\<close> block: \<open>Inl\<close> is the value thrown inside it.\<close>

definition action_try :: "form_body \<Rightarrow> environment \<Rightarrow> service \<Rightarrow> js_error + returned_data" where
  "action_try body env svc =
     (case external_call svc (action_input body env) of
        Inl e \<Rightarrow> Inl e
      | Inr response \<Rightarrow>
          Inr \<lparr>d_message = f_message body,
               answer = (case r_output response of None \<Rightarrow> None | Some out \<Rightarrow> output_text out),
               d_error = None,
               d_sessionId = js_or (r_sessionId response) (f_sessionId body)\<rparr>)"

definition fallback_error :: jsstring where
  "fallback_error = js_str ''Something went wrong! Please try again.''"

definition action :: "form_body \<Rightarrow> environment \<Rightarrow> service \<Rightarrow> returned_data" where
  "action body env svc =
     (case action_try body env svc of
        Inr result \<Rightarrow> result
      | Inl e \<Rightarrow>
          \<lparr>d_message = f_message body,
           answer = Some [],
           d_error = js_or (e_message e) (Some fallback_error),
           d_sessionId = f_sessionId body\<rparr>)"

section \<open>The chat view \<^verbatim>\<open>IndexPage\<close>\<close>

datatype role = User | Assistant

text \<open>\<^verbatim>\<open>ChatHistoryProps\<close>; \<open>error = None\<close> is a turn without the optional flag.\<close>

record chat_turn =
  content :: jsstring
  role :: role
  error :: "bool option"

text \<open>What the view writes of the textarea behind \<^verbatim>\<open>inputRef\<close>. \<open>rows\<close> holds the
  number the code assigns.\<close>

record textarea =
  ta_value :: jsstring
  rows :: jsnum
  scrollTop :: int
  focused :: bool

text \<open>\<^verbatim>\<open>location.state\<close>: the transcript under \<^verbatim>\<open>chatHistory\<close> when there is one, and
  whatever other properties the object has (the spread \<^verbatim>\<open>...location.state\<close> keeps
  them), as pairs of a key and a serialised value.\<close>

record nav_state =
  st_chatHistory :: "chat_turn list option"
  st_other :: "(jsstring \<times> jsstring) list"

text \<open>\<^verbatim>\<open>useNavigation().state\<close>.\<close>

datatype navigation_phase = Idle | Submitting | Loading

text \<open>
  The state of the component: the two \<^verbatim>\<open>useState\<close> cells, the textarea ref
  (\<open>None\<close> while it is not attached), what \<^verbatim>\<open>useActionData\<close>, \<^verbatim>\<open>useNavigation\<close> and
  \<^verbatim>\<open>useLocation\<close> return, and the states handed to \<^verbatim>\<open>navigate("/", {state})\<close>, oldest
  first. Scrolling (\<^verbatim>\<open>scrollToBottom\<close>) writes the window's scroll position only and
  is left out.
\<close>

record view =
  chatHistory :: "chat_turn list"
  sessionId :: "jsstring option"
  inputRef :: "textarea option"
  data :: "returned_data option"
  navigation_state :: navigation_phase
  location_state :: "nav_state option"
  navigated :: "nav_state list"

definition minTextareaRows :: int where "minTextareaRows = 1"
definition maxTextareaRows :: int where "maxTextareaRows = 3"

text \<open>What the browser reports to \<^verbatim>\<open>handleTextareaChange\<close> once the rows are reset:
  the three \<^verbatim>\<open>parseInt\<close> results and the element's \<^verbatim>\<open>scrollHeight\<close>.\<close>

record measurement =
  lineHeight :: jsnum
  paddingTop :: jsnum
  paddingBottom :: jsnum
  el_scrollHeight :: int

definition handleTextareaChange :: "measurement \<Rightarrow> view \<Rightarrow> view" where
  "handleTextareaChange m v =
     (case inputRef v of
        None \<Rightarrow> v
      | Some ta0 \<Rightarrow>
          (let ta = ta0\<lparr>rows := Num minTextareaRows\<rparr>;
               scrollHeight = js_sub (js_sub (Num (el_scrollHeight m)) (paddingTop m)) (paddingBottom m);
               currentRows = js_floor_div scrollHeight (lineHeight m)
           in if js_ge currentRows (Num maxTextareaRows)
              then v\<lparr>inputRef := Some (ta\<lparr>rows := Num maxTextareaRows, scrollTop := el_scrollHeight m\<rparr>)\<rparr>
              else v\<lparr>inputRef := Some (ta\<lparr>rows := currentRows\<rparr>)\<rparr>))"

text \<open>\<^verbatim>\<open>setChatHistory((prevState) => [...prevState, data])\<close>.\<close>

definition pushChatHistory :: "chat_turn \<Rightarrow> view \<Rightarrow> view" where
  "pushChatHistory t v = v\<lparr>chatHistory := chatHistory v @ [t]\<rparr>"

definition saveUserMessage :: "jsstring \<Rightarrow> view \<Rightarrow> view" where
  "saveUserMessage c v = pushChatHistory \<lparr>content = c, role = User, error = None\<rparr> v"

text \<open>The argument is \<^verbatim>\<open>formData.get("message")\<close>, the value of the textarea.\<close>

definition handleFormSubmit :: "jsstring \<Rightarrow> view \<Rightarrow> view" where
  "handleFormSubmit message v = saveUserMessage message v"

text \<open>
  A form submission with method \<^verbatim>\<open>post\<close> starts a navigation of the framework:
  \<^verbatim>\<open>useNavigation().state\<close> is \<^verbatim>\<open>"submitting"\<close> from then until the handler's result
  arrives.
\<close>

definition submit :: "view \<Rightarrow> view" where
  "submit v = v\<lparr>navigation_state := Submitting\<rparr>"

text \<open>A click on the submit button: \<^verbatim>\<open>Form\<close> calls its \<^verbatim>\<open>onSubmit\<close>, which does not
  prevent the default, and submits.\<close>

definition form_submit :: "jsstring \<Rightarrow> view \<Rightarrow> view" where
  "form_submit message v = submit (handleFormSubmit message v)"

record keyboard_event =
  key :: jsstring
  shiftKey :: bool
  target_value :: jsstring

definition submitFormOnEnter :: "keyboard_event \<Rightarrow> view \<Rightarrow> view" where
  "submitFormOnEnter event v =
     (let val = target_value event
      in if key event = js_str ''Enter'' \<and> \<not> shiftKey event \<and> 2 < length (trim val)
         then submit (saveUserMessage val v)
         else v)"

text \<open>The hidden field \<^verbatim>\<open>sessionId\<close> carries \<^verbatim>\<open>sessionId || ""\<close>.\<close>

definition posted_form :: "jsstring \<Rightarrow> view \<Rightarrow> form_body" where
  "posted_form message v =
     \<lparr>f_message = Some message, f_sessionId = js_or (sessionId v) (Some [])\<rparr>"

text \<open>The \<^verbatim>\<open>setChat\<close> callback. An array is truthy even when it is empty.\<close>

definition setChat :: "view \<Rightarrow> view" where
  "setChat v =
     (case location_state v of
        None \<Rightarrow> v
      | Some st \<Rightarrow>
          (case st_chatHistory st of
             None \<Rightarrow> v
           | Some h \<Rightarrow> v\<lparr>chatHistory := h\<rparr>))"

text \<open>The effect on \<^verbatim>\<open>navigation.state\<close>: clear the input while submitting, focus it
  otherwise.\<close>

definition input_effect :: "view \<Rightarrow> view" where
  "input_effect v =
     (case inputRef v of
        None \<Rightarrow> v
      | Some ta \<Rightarrow>
          if navigation_state v = Submitting
          then v\<lparr>inputRef := Some (ta\<lparr>ta_value := [], rows := Num 1\<rparr>)\<rparr>
          else v\<lparr>inputRef := Some (ta\<lparr>focused := True\<rparr>)\<rparr>)"

definition navigate :: "nav_state \<Rightarrow> view \<Rightarrow> view" where
  "navigate st v = v\<lparr>navigated := navigated v @ [st]\<rparr>"

text \<open>
  The effect on \<^verbatim>\<open>data\<close>. The state handed to \<^verbatim>\<open>navigate\<close> is built from the
  \<^verbatim>\<open>chatHistory\<close> and the \<^verbatim>\<open>location.state\<close> of the render the effect belongs to.
\<close>

definition data_effect :: "view \<Rightarrow> view" where
  "data_effect v =
     (case data v of
        None \<Rightarrow> v
      | Some d \<Rightarrow>
          if truthy (d_error d)
          then pushChatHistory \<lparr>content = the (d_error d), role = Assistant, error = Some True\<rparr> v
          else if truthy (answer d)
          then (let newAnswer = \<lparr>content = the (answer d), role = Assistant, error = None\<rparr>
                in navigate
                     \<lparr>st_chatHistory = Some (chatHistory v @ [newAnswer]),
                      st_other = (case location_state v of None \<Rightarrow> [] | Some st \<Rightarrow> st_other st)\<rparr>
                     (pushChatHistory newAnswer v))
          else v)"

text \<open>The effect that clears the transcript when \<^verbatim>\<open>location.state\<close> is missing.\<close>

definition clear_effect :: "view \<Rightarrow> view" where
  "clear_effect v = (if location_state v = None then v\<lparr>chatHistory := []\<rparr> else v)"

text \<open>The effect on \<^verbatim>\<open>data?.sessionId\<close> and \<^verbatim>\<open>sessionId\<close>.\<close>

definition session_effect :: "view \<Rightarrow> view" where
  "session_effect v =
     (case data v of
        None \<Rightarrow> v
      | Some d \<Rightarrow>
          if truthy (d_sessionId d) \<and> d_sessionId d \<noteq> sessionId v
          then v\<lparr>sessionId := d_sessionId d\<rparr>
          else v)"

text \<open>
  When the component mounts, every effect runs once, in the order of the source. When
  only \<^verbatim>\<open>location\<close> changes (a traversal of the history), the two effects that depend
  on it run, in the same order.
\<close>

definition effects_on_mount :: "view \<Rightarrow> view" where
  "effects_on_mount v = session_effect (setChat (clear_effect (data_effect (input_effect v))))"

definition effects_on_location :: "view \<Rightarrow> view" where
  "effects_on_location v = setChat (clear_effect v)"

text \<open>
  The component before any interaction: the initial values of the two \<^verbatim>\<open>useState\<close>
  cells, no action data, an idle navigation, no \<^verbatim>\<open>location.state\<close>, and the empty
  one-row textarea attached.
\<close>

definition initial_view :: view where
  "initial_view =
     \<lparr>chatHistory = [], sessionId = None,
      inputRef = Some \<lparr>ta_value = [], rows = Num 1, scrollTop = 0, focused = False\<rparr>,
      data = None, navigation_state = Idle, location_state = None, navigated = []\<rparr>"

text \<open>
  The pass in which a handler result reaches the view. Neither the \<^verbatim>\<open>Form\<close> (with
  \<^verbatim>\<open>method="post" replace\<close>) nor \<^verbatim>\<open>submit(formRef.current, { replace: true })\<close> passes a
  state, so the location that a finished submission leaves has no state; the result is
  delivered together with that location and with a navigation that is no longer
  submitting. Every dependency has changed, so the five effects run, in the order of the
  source.
\<close>

definition result_pass :: "returned_data \<Rightarrow> view \<Rightarrow> view" where
  "result_pass d v =
     session_effect (setChat (clear_effect (data_effect (input_effect
       (v\<lparr>data := Some d, navigation_state := Idle, location_state := None\<rparr>)))))"

text \<open>
  When the data effect of that pass has called \<^verbatim>\<open>navigate("/", {state})\<close>, the router
  moves to the location that carries the state handed over, and the effects that depend
  on \<^verbatim>\<open>location\<close> run.
\<close>

definition receive_result :: "returned_data \<Rightarrow> view \<Rightarrow> view" where
  "receive_result d v =
     (let v1 = result_pass d v
      in if navigated v1 = navigated v then v1
         else effects_on_location (v1\<lparr>location_state := Some (last (navigated v1))\<rparr>))"





section \<open>Properties of the request handler\<close>

lemma fallback_error_nonempty: "fallback_error \<noteq> []"
  by (simp add: fallback_error_def js_str_def)



text \<open>
  C10: when the external call throws, the result of \<^verbatim>\<open>action\<close> has the empty string as
  answer, the submitted message as message, and as error the thrown value's message when
  that is a non-empty string and the fixed fallback text otherwise; so the error is always
  a non-empty string.
\<close>

theorem action_failure_result:
  assumes "external_call svc (action_input body env) = Inl e"
  shows "answer (action body env svc) = Some []
       \<and> d_message (action body env svc) = f_message body
       \<and> d_error (action body env svc) =
           Some (case e_message e of
                   None \<Rightarrow> fallback_error
                 | Some m \<Rightarrow> if m \<noteq> [] then m else fallback_error)
       \<and> fallback_error = js_str ''Something went wrong! Please try again.''
       \<and> (\<exists>m. d_error (action body env svc) = Some m \<and> m \<noteq> [])"
proof -
  have res: "action body env svc =
      \<lparr>d_message = f_message body, answer = Some [],
       d_error = js_or (e_message e) (Some fallback_error),
       d_sessionId = f_sessionId body\<rparr>"
    using assms by (simp add: action_def action_try_def)
  have err: "js_or (e_message e) (Some fallback_error) =
      Some (case e_message e of
              None \<Rightarrow> fallback_error
            | Some m \<Rightarrow> if m \<noteq> [] then m else fallback_error)"
    by (simp add: js_or_def truthy_def split: option.splits)
  have nonempty: "\<exists>m. d_error (action body env svc) = Some m \<and> m \<noteq> []"
    using fallback_error_nonempty by (simp add: res err split: option.splits)
  have literal: "fallback_error = js_str ''Something went wrong! Please try again.''"
    by (simp add: fallback_error_def)
  have fields: "answer (action body env svc) = Some []
       \<and> d_message (action body env svc) = f_message body
       \<and> d_error (action body env svc) =
           Some (case e_message e of
                   None \<Rightarrow> fallback_error
                 | Some m \<Rightarrow> if m \<noteq> [] then m else fallback_error)"
    by (simp add: res err)
  from fields literal nonempty show ?thesis by blast
qed

theorem action_failure_result_witness:
  "external_call \<lparr>new_client = None, send = (\<lambda>i. Inl \<lparr>e_message = Some []\<rparr>)\<rparr>
     (action_input \<lparr>f_message = Some (js_str ''hey''), f_sessionId = None\<rparr>
                   \<lparr>KNOWLEDGE_BASE_ID = None, MODEL_ARN = None\<rparr>) = Inl \<lparr>e_message = Some []\<rparr>
 \<and> d_error (action \<lparr>f_message = Some (js_str ''hey''), f_sessionId = None\<rparr>
                   \<lparr>KNOWLEDGE_BASE_ID = None, MODEL_ARN = None\<rparr>
                   \<lparr>new_client = None, send = (\<lambda>i. Inl \<lparr>e_message = Some []\<rparr>)\<rparr>)
     = Some fallback_error"
proof -
  have h: "external_call \<lparr>new_client = None, send = (\<lambda>i. Inl \<lparr>e_message = Some []\<rparr>)\<rparr>
     (action_input \<lparr>f_message = Some (js_str ''hey''), f_sessionId = None\<rparr>
                   \<lparr>KNOWLEDGE_BASE_ID = None, MODEL_ARN = None\<rparr>) = Inl \<lparr>e_message = Some []\<rparr>"
    by (simp add: external_call_def)
  show ?thesis
    using h action_failure_result [OF h] by simp
qed

text \<open>
  C3: when the external call fails, the session identifier that \<^verbatim>\<open>action\<close> returns is the
  one of the request; when it succeeds, it is the identifier of the response if the service
  supplied one (a non-empty string) and the one of the request otherwise; and the view
  changes its stored identifier exactly when the result carries an identifier (a non-empty
  string) that differs from the stored one, and then stores that one.
\<close>

theorem session_identifier_threading:
  "(external_call svc (action_input body env) = Inl e \<longrightarrow>
      d_sessionId (action body env svc) = f_sessionId body)
 \<and> (external_call svc (action_input body env) = Inr response \<longrightarrow>
      d_sessionId (action body env svc) =
        (if truthy (r_sessionId response) then r_sessionId response else f_sessionId body))
 \<and> (sessionId (session_effect v) \<noteq> sessionId v \<longrightarrow>
      (\<exists>d. data v = Some d \<and> truthy (d_sessionId d) \<and> d_sessionId d \<noteq> sessionId v
           \<and> sessionId (session_effect v) = d_sessionId d))
 \<and> ((\<exists>d. data v = Some d \<and> truthy (d_sessionId d) \<and> d_sessionId d \<noteq> sessionId v) \<longrightarrow>
      sessionId (session_effect v) \<noteq> sessionId v)"
proof -
  have failure: "external_call svc (action_input body env) = Inl e \<longrightarrow>
      d_sessionId (action body env svc) = f_sessionId body"
    by (simp add: action_def action_try_def)
  have success: "external_call svc (action_input body env) = Inr response \<longrightarrow>
      d_sessionId (action body env svc) =
        (if truthy (r_sessionId response) then r_sessionId response else f_sessionId body)"
    by (simp add: action_def action_try_def js_or_def)
  have replaced_only_when: "sessionId (session_effect v) \<noteq> sessionId v \<longrightarrow>
      (\<exists>d. data v = Some d \<and> truthy (d_sessionId d) \<and> d_sessionId d \<noteq> sessionId v
           \<and> sessionId (session_effect v) = d_sessionId d)"
    by (cases "data v") (auto simp: session_effect_def split: if_splits)
  have replaced_when: "(\<exists>d. data v = Some d \<and> truthy (d_sessionId d) \<and> d_sessionId d \<noteq> sessionId v) \<longrightarrow>
      sessionId (session_effect v) \<noteq> sessionId v"
    by (auto simp: session_effect_def)
  from failure success replaced_only_when replaced_when show ?thesis
    by blast
qed

theorem session_identifier_threading_witness:
  "d_sessionId (action \<lparr>f_message = Some (js_str ''hey''), f_sessionId = Some (js_str ''s1'')\<rparr>
                       \<lparr>KNOWLEDGE_BASE_ID = None, MODEL_ARN = None\<rparr>
                       \<lparr>new_client = None, send = (\<lambda>i. Inl \<lparr>e_message = None\<rparr>)\<rparr>)
     = Some (js_str ''s1'')
 \<and> d_sessionId (action \<lparr>f_message = Some (js_str ''hey''), f_sessionId = Some (js_str ''s1'')\<rparr>
                       \<lparr>KNOWLEDGE_BASE_ID = None, MODEL_ARN = None\<rparr>
                       \<lparr>new_client = None,
                        send = (\<lambda>i. Inr \<lparr>r_output = None, r_sessionId = Some (js_str ''s2'')\<rparr>)\<rparr>)
     = Some (js_str ''s2'')
 \<and> sessionId (session_effect
       (initial_view\<lparr>sessionId := Some (js_str ''s1''),
                     data := Some \<lparr>d_message = None, answer = None, d_error = None,
                                   d_sessionId = Some (js_str ''s2'')\<rparr>\<rparr>))
     \<noteq> Some (js_str ''s1'')"
  using session_identifier_threading
          [where svc = "\<lparr>new_client = None, send = (\<lambda>i. Inl \<lparr>e_message = None\<rparr>)\<rparr>"
             and body = "\<lparr>f_message = Some (js_str ''hey''), f_sessionId = Some (js_str ''s1'')\<rparr>"
             and env = "\<lparr>KNOWLEDGE_BASE_ID = None, MODEL_ARN = None\<rparr>"
             and e = "\<lparr>e_message = None\<rparr>"
             and v = "initial_view\<lparr>sessionId := Some (js_str ''s1''),
                     data := Some \<lparr>d_message = None, answer = None, d_error = None,
                                   d_sessionId = Some (js_str ''s2'')\<rparr>\<rparr>"]
        session_identifier_threading
          [where svc = "\<lparr>new_client = None,
                        send = (\<lambda>i. Inr \<lparr>r_output = None, r_sessionId = Some (js_str ''s2'')\<rparr>)\<rparr>"
             and body = "\<lparr>f_message = Some (js_str ''hey''), f_sessionId = Some (js_str ''s1'')\<rparr>"
             and env = "\<lparr>KNOWLEDGE_BASE_ID = None, MODEL_ARN = None\<rparr>"
             and response = "\<lparr>r_output = None, r_sessionId = Some (js_str ''s2'')\<rparr>"]
  by (simp add: external_call_def truthy_def js_str_def initial_view_def)

section \<open>Properties of the chat view\<close>

lemma location_state_input_effect: "location_state (input_effect v) = location_state v"
  by (simp add: input_effect_def split: option.splits)

lemma location_state_data_effect: "location_state (data_effect v) = location_state v"
  by (simp add: data_effect_def pushChatHistory_def navigate_def Let_def split: option.splits)

lemma location_state_clear_effect: "location_state (clear_effect v) = location_state v"
  by (simp add: clear_effect_def)

lemma chatHistory_session_effect: "chatHistory (session_effect v) = chatHistory v"
  by (simp add: session_effect_def split: option.splits)

lemma chatHistory_setChat:
  "chatHistory (setChat v) =
     (case location_state v of
        None \<Rightarrow> chatHistory v
      | Some st \<Rightarrow> (case st_chatHistory st of None \<Rightarrow> chatHistory v | Some h \<Rightarrow> h))"
  by (simp add: setChat_def split: option.splits)

lemma floor_div_ge_one: "0 < (l::int) \<Longrightarrow> (1 \<le> h div l) = (l \<le> h)"
  using pos_imp_zdiv_pos_iff [of l h] by linarith

lemma chatHistory_input_effect: "chatHistory (input_effect v) = chatHistory v"
  by (simp add: input_effect_def split: option.splits)

lemma navigated_input_effect: "navigated (input_effect v) = navigated v"
  by (simp add: input_effect_def split: option.splits)

lemma data_input_effect: "data (input_effect v) = data v"
  by (simp add: input_effect_def split: option.splits)

lemma navigated_session_effect: "navigated (session_effect v) = navigated v"
  by (simp add: session_effect_def split: option.splits)

lemma location_state_session_effect: "location_state (session_effect v) = location_state v"
  by (simp add: session_effect_def split: option.splits)

lemma navigated_setChat: "navigated (setChat v) = navigated v"
  by (simp add: setChat_def split: option.splits)

lemma location_state_setChat: "location_state (setChat v) = location_state v"
  by (simp add: setChat_def split: option.splits)

lemma navigated_clear_effect: "navigated (clear_effect v) = navigated v"
  by (simp add: clear_effect_def)

lemma navigated_data_effect:
  "data v = Some d \<Longrightarrow> location_state v = None \<Longrightarrow>
   navigated (data_effect v) =
     (if \<not> truthy (d_error d) \<and> truthy (answer d)
      then navigated v @ [\<lparr>st_chatHistory = Some (chatHistory v @ [\<lparr>content = the (answer d), role = Assistant, error = None\<rparr>]), st_other = []\<rparr>]
      else navigated v)"
  by (simp add: data_effect_def pushChatHistory_def navigate_def Let_def)

lemma chatHistory_result_pass: "chatHistory (result_pass d v) = []"
  by (simp add: result_pass_def chatHistory_session_effect chatHistory_setChat
      location_state_clear_effect location_state_data_effect location_state_input_effect
      clear_effect_def)

lemma location_state_result_pass: "location_state (result_pass d v) = None"
  by (simp add: result_pass_def location_state_session_effect location_state_setChat
      location_state_clear_effect location_state_data_effect location_state_input_effect)

lemma navigated_result_pass:
  "navigated (result_pass d v) =
     (if \<not> truthy (d_error d) \<and> truthy (answer d)
      then navigated v @ [\<lparr>st_chatHistory = Some (chatHistory v @ [\<lparr>content = the (answer d), role = Assistant, error = None\<rparr>]), st_other = []\<rparr>]
      else navigated v)"
  by (simp add: result_pass_def navigated_session_effect navigated_setChat navigated_clear_effect
      navigated_data_effect [where d = d] data_input_effect location_state_input_effect
      chatHistory_input_effect navigated_input_effect)


lemma chatHistory_receive_result:
  "chatHistory (receive_result d v) =
     (if \<not> truthy (d_error d) \<and> truthy (answer d)
      then chatHistory v @ [\<lparr>content = the (answer d), role = Assistant, error = None\<rparr>]
      else [])"
  by (simp add: receive_result_def Let_def navigated_result_pass chatHistory_result_pass
      effects_on_location_def chatHistory_setChat location_state_clear_effect)




lemma chatHistory_form_submit:
  "chatHistory (form_submit message v) =
     chatHistory v @ [\<lparr>content = message, role = User, error = None\<rparr>]"
  by (simp add: form_submit_def handleFormSubmit_def saveUserMessage_def pushChatHistory_def
      submit_def)









text \<open>
  C1, as the code has it: when a handler result without error (no error field, or an empty
  one) whose answer is a non-empty string reaches the view, the transcript becomes the
  transcript before it followed by exactly one assistant turn, without error flag, whose
  content is the answer. When the answer is the empty string or is missing, the guard
  \<^verbatim>\<open>if (data?.answer)\<close> is false and no turn is appended: the transcript after the result
  is an initial part of the transcript before it.
\<close>

theorem answer_turn_appended:
  assumes "\<not> truthy (d_error d)"
  shows "(\<forall>a. answer d = Some a \<and> a \<noteq> [] \<longrightarrow>
            chatHistory (receive_result d v) =
              chatHistory v @ [\<lparr>content = a, role = Assistant, error = None\<rparr>])
       \<and> (answer d = Some [] \<or> answer d = None \<longrightarrow>
            (\<exists>rest. chatHistory v = chatHistory (receive_result d v) @ rest))"
proof -
  have appended: "\<forall>a. answer d = Some a \<and> a \<noteq> [] \<longrightarrow>
      chatHistory (receive_result d v) =
        chatHistory v @ [\<lparr>content = a, role = Assistant, error = None\<rparr>]"
    using assms by (simp add: chatHistory_receive_result truthy_def)
  have unappended: "answer d = Some [] \<or> answer d = None \<longrightarrow>
      (\<exists>rest. chatHistory v = chatHistory (receive_result d v) @ rest)"
  proof
    assume "answer d = Some [] \<or> answer d = None"
    then have "\<not> truthy (answer d)" by (auto simp: truthy_def)
    then have "chatHistory (receive_result d v) = []"
      by (simp add: chatHistory_receive_result)
    then show "\<exists>rest. chatHistory v = chatHistory (receive_result d v) @ rest" by simp
  qed
  from appended unappended show ?thesis by (rule conjI)
qed

theorem answer_turn_appended_witness:
  "\<not> truthy None
 \<and> chatHistory (receive_result
      \<lparr>d_message = Some (js_str ''hey''), answer = Some (js_str ''yo''),
       d_error = None, d_sessionId = None\<rparr>
      (input_effect (form_submit (js_str ''hey'') initial_view)))
     = [\<lparr>content = js_str ''hey'', role = User, error = None\<rparr>,
        \<lparr>content = js_str ''yo'', role = Assistant, error = None\<rparr>]"
  using answer_turn_appended
          [of "\<lparr>d_message = Some (js_str ''hey''), answer = Some (js_str ''yo''),
                d_error = None, d_sessionId = None\<rparr>"
              "input_effect (form_submit (js_str ''hey'') initial_view)"]
  by (simp add: truthy_def js_str_def chatHistory_input_effect chatHistory_form_submit
        initial_view_def)

text \<open>
  The claim C1 as it is written fails for the empty answer: the service answers with the
  empty text, \<^verbatim>\<open>action\<close> returns it without error, and the transcript that held the user's
  turn holds no assistant turn after the result (it is empty).
\<close>

theorem empty_answer_appends_nothing:
  "d_error (action \<lparr>f_message = Some (js_str ''hey''), f_sessionId = Some []\<rparr>
                   \<lparr>KNOWLEDGE_BASE_ID = None, MODEL_ARN = None\<rparr>
                   \<lparr>new_client = None,
                    send = (\<lambda>i. Inr \<lparr>r_output = Some \<lparr>output_text = Some []\<rparr>, r_sessionId = None\<rparr>)\<rparr>)
     = None
 \<and> answer (action \<lparr>f_message = Some (js_str ''hey''), f_sessionId = Some []\<rparr>
                   \<lparr>KNOWLEDGE_BASE_ID = None, MODEL_ARN = None\<rparr>
                   \<lparr>new_client = None,
                    send = (\<lambda>i. Inr \<lparr>r_output = Some \<lparr>output_text = Some []\<rparr>, r_sessionId = None\<rparr>)\<rparr>)
     = Some []
 \<and> chatHistory (input_effect (form_submit (js_str ''hey'') initial_view))
     = [\<lparr>content = js_str ''hey'', role = User, error = None\<rparr>]
 \<and> chatHistory (receive_result
      (action \<lparr>f_message = Some (js_str ''hey''), f_sessionId = Some []\<rparr>
              \<lparr>KNOWLEDGE_BASE_ID = None, MODEL_ARN = None\<rparr>
              \<lparr>new_client = None,
               send = (\<lambda>i. Inr \<lparr>r_output = Some \<lparr>output_text = Some []\<rparr>, r_sessionId = None\<rparr>)\<rparr>)
      (input_effect (form_submit (js_str ''hey'') initial_view)))
     = []"
  by (simp add: action_def action_try_def external_call_def js_or_def truthy_def
        chatHistory_receive_result chatHistory_input_effect chatHistory_form_submit
        initial_view_def)

text \<open>
  C2: for a handler result whose error is a non-empty string, the view should append
  exactly one assistant turn with the error flag set, whose content is the error message.
  The code does not: the effect on \<^verbatim>\<open>data\<close> pushes that turn, and the effect that clears
  the transcript runs in the same pass, since the location of a finished submission has no
  state. After a refused question the pushed turn is there when the data effect has run,
  and the transcript that the view shows when the pass is over is empty.
\<close>

theorem error_turn_lost:
  "d_error (action (posted_form (js_str ''q1'') initial_view)
                   \<lparr>KNOWLEDGE_BASE_ID = None, MODEL_ARN = None\<rparr>
                   \<lparr>new_client = None, send = (\<lambda>i. Inl \<lparr>e_message = Some (js_str ''denied'')\<rparr>)\<rparr>)
     = Some (js_str ''denied'')
 \<and> chatHistory (data_effect (input_effect
      ((input_effect (form_submit (js_str ''q1'') initial_view))
         \<lparr>data := Some (action (posted_form (js_str ''q1'') initial_view)
                   \<lparr>KNOWLEDGE_BASE_ID = None, MODEL_ARN = None\<rparr>
                   \<lparr>new_client = None,
                    send = (\<lambda>i. Inl \<lparr>e_message = Some (js_str ''denied'')\<rparr>)\<rparr>),
           navigation_state := Idle, location_state := None\<rparr>)))
     = [\<lparr>content = js_str ''q1'', role = User, error = None\<rparr>,
        \<lparr>content = js_str ''denied'', role = Assistant, error = Some True\<rparr>]
 \<and> chatHistory (receive_result
      (action (posted_form (js_str ''q1'') initial_view)
              \<lparr>KNOWLEDGE_BASE_ID = None, MODEL_ARN = None\<rparr>
              \<lparr>new_client = None, send = (\<lambda>i. Inl \<lparr>e_message = Some (js_str ''denied'')\<rparr>)\<rparr>)
      (input_effect (form_submit (js_str ''q1'') initial_view)))
     = []"
  by (simp add: action_def action_try_def external_call_def js_or_def truthy_def js_str_def
        posted_form_def chatHistory_receive_result data_effect_def pushChatHistory_def
        input_effect_def form_submit_def handleFormSubmit_def saveUserMessage_def submit_def
        initial_view_def)

text \<open>
  C4: a submission whose trimmed message is longer than 2 code units, made by a click on
  the submit button or by Enter without Shift, appends a user turn holding the message.
  The handler of the event appends it by itself: in the state it leaves, the navigation is
  submitting and the action data is still the old one, so no result has arrived. The effect
  on \<^verbatim>\<open>navigation.state\<close> then empties the input and changes nothing else. The textarea
  is attached to its ref, as it is whenever the component handles an event.
\<close>

theorem user_turn_on_submission:
  assumes "2 < length (trim message)" and "inputRef v = Some ta"
    and "p = form_submit message
       \<or> p = submitFormOnEnter \<lparr>key = js_str ''Enter'', shiftKey = False, target_value = message\<rparr>"
  shows "chatHistory (p v) = chatHistory v @ [\<lparr>content = message, role = User, error = None\<rparr>]
       \<and> navigation_state (p v) = Submitting
       \<and> data (p v) = data v
       \<and> inputRef (p v) = Some ta
       \<and> input_effect (p v) = (p v)\<lparr>inputRef := Some (ta\<lparr>ta_value := [], rows := Num 1\<rparr>)\<rparr>"
proof -
  have same: "submitFormOnEnter \<lparr>key = js_str ''Enter'', shiftKey = False, target_value = message\<rparr> v
      = form_submit message v"
    using assms(1)
    by (simp add: submitFormOnEnter_def form_submit_def handleFormSubmit_def Let_def)
  have pv: "p v = form_submit message v"
    using assms(3) same by auto
  have click: "form_submit message v =
      v\<lparr>chatHistory := chatHistory v @ [\<lparr>content = message, role = User, error = None\<rparr>],
        navigation_state := Submitting\<rparr>"
    by (simp add: form_submit_def handleFormSubmit_def saveUserMessage_def pushChatHistory_def
          submit_def)
  show ?thesis
    using assms(2) by (simp add: pv click input_effect_def)
qed

theorem user_turn_on_submission_witness:
  "2 < length (trim (js_str '' hello ''))
 \<and> chatHistory (submitFormOnEnter
       \<lparr>key = js_str ''Enter'', shiftKey = False, target_value = js_str '' hello ''\<rparr>
       (initial_view\<lparr>inputRef := Some \<lparr>ta_value = js_str '' hello '', rows = Num 1,
                                        scrollTop = 0, focused = True\<rparr>\<rparr>))
     = [\<lparr>content = js_str '' hello '', role = User, error = None\<rparr>]
 \<and> chatHistory (form_submit (js_str '' hello '')
       (initial_view\<lparr>inputRef := Some \<lparr>ta_value = js_str '' hello '', rows = Num 1,
                                        scrollTop = 0, focused = True\<rparr>\<rparr>))
     = [\<lparr>content = js_str '' hello '', role = User, error = None\<rparr>]"
proof -
  have h: "2 < length (trim (js_str '' hello ''))"
    by (simp add: trim_def js_str_def is_js_whitespace_def)
  have r: "inputRef (initial_view\<lparr>inputRef := Some \<lparr>ta_value = js_str '' hello '', rows = Num 1,
                                        scrollTop = 0, focused = True\<rparr>\<rparr>)
      = Some \<lparr>ta_value = js_str '' hello '', rows = Num 1, scrollTop = 0, focused = True\<rparr>"
    by simp
  have c: "chatHistory (initial_view\<lparr>inputRef := Some \<lparr>ta_value = js_str '' hello '', rows = Num 1,
                                        scrollTop = 0, focused = True\<rparr>\<rparr>) = []"
    by (simp add: initial_view_def)
  show ?thesis
    using h c user_turn_on_submission [OF h r, of "form_submit (js_str '' hello '')"]
      user_turn_on_submission [OF h r, of "submitFormOnEnter
        \<lparr>key = js_str ''Enter'', shiftKey = False, target_value = js_str '' hello ''\<rparr>"]
    by simp
qed

text \<open>
  C6: when \<^verbatim>\<open>location.state\<close> holds a transcript under \<^verbatim>\<open>chatHistory\<close>, loading the view
  sets the displayed transcript to that list, the same turns in the same order: by
  \<^verbatim>\<open>setChat\<close> alone, by the effects that run when the location changes, and by the effects
  that run when the component mounts.
\<close>

theorem restore_transcript:
  assumes "location_state v = Some st" and "st_chatHistory st = Some h"
  shows "chatHistory (setChat v) = h \<and> chatHistory (effects_on_location v) = h
       \<and> chatHistory (effects_on_mount v) = h"
  using assms
  by (simp add: effects_on_location_def effects_on_mount_def chatHistory_session_effect
        chatHistory_setChat location_state_clear_effect location_state_data_effect
        location_state_input_effect)

theorem restore_transcript_witness:
  "chatHistory (effects_on_mount (initial_view
      \<lparr>location_state := Some
         \<lparr>st_chatHistory = Some [\<lparr>content = js_str ''hi'', role = User, error = None\<rparr>,
                                 \<lparr>content = js_str ''yo'', role = Assistant, error = None\<rparr>],
          st_other = []\<rparr>\<rparr>))
   = [\<lparr>content = js_str ''hi'', role = User, error = None\<rparr>,
      \<lparr>content = js_str ''yo'', role = Assistant, error = None\<rparr>]"
  using restore_transcript
          [of "initial_view\<lparr>location_state := Some
                 \<lparr>st_chatHistory = Some [\<lparr>content = js_str ''hi'', role = User, error = None\<rparr>,
                                         \<lparr>content = js_str ''yo'', role = Assistant, error = None\<rparr>],
                  st_other = []\<rparr>\<rparr>"
              "\<lparr>st_chatHistory = Some [\<lparr>content = js_str ''hi'', role = User, error = None\<rparr>,
                                      \<lparr>content = js_str ''yo'', role = Assistant, error = None\<rparr>],
                st_other = []\<rparr>"
              "[\<lparr>content = js_str ''hi'', role = User, error = None\<rparr>,
                \<lparr>content = js_str ''yo'', role = Assistant, error = None\<rparr>]"]
  by simp

text \<open>
  C7: when the view loads without \<^verbatim>\<open>location.state\<close>, the displayed transcript is set to
  the empty list, whatever it held and whatever action data is present.
\<close>

theorem no_state_empty_transcript:
  assumes "location_state v = None"
  shows "chatHistory (clear_effect v) = [] \<and> chatHistory (effects_on_location v) = []
       \<and> chatHistory (effects_on_mount v) = []"
  using assms
  by (simp add: effects_on_location_def effects_on_mount_def chatHistory_session_effect
        chatHistory_setChat location_state_clear_effect location_state_data_effect
        location_state_input_effect clear_effect_def)

theorem no_state_empty_transcript_witness:
  "location_state (initial_view\<lparr>chatHistory := [\<lparr>content = js_str ''hi'', role = User, error = None\<rparr>]\<rparr>)
     = None
 \<and> chatHistory (effects_on_mount
      (initial_view\<lparr>chatHistory := [\<lparr>content = js_str ''hi'', role = User, error = None\<rparr>]\<rparr>)) = []"
  using no_state_empty_transcript
          [of "initial_view\<lparr>chatHistory := [\<lparr>content = js_str ''hi'', role = User, error = None\<rparr>]\<rparr>"]
  by (simp add: initial_view_def)

text \<open>
  C8, as the code has it: when the measured line height is a positive number of pixels and
  the paddings are numbers, \<^verbatim>\<open>handleTextareaChange\<close> assigns the floor of (scrollHeight
  minus vertical padding) divided by the line height, capped at 3. That number is at most
  3, and it is at least 1 exactly when scrollHeight minus the vertical padding is at least
  one line height: the code caps from above only.
\<close>

theorem textarea_rows_bounds:
  assumes "inputRef v = Some ta"
    and "lineHeight m = Num l" and "0 < l"
    and "paddingTop m = Num pt" and "paddingBottom m = Num pb"
  shows "\<exists>ta' r. inputRef (handleTextareaChange m v) = Some ta' \<and> rows ta' = Num r
            \<and> r = min 3 ((el_scrollHeight m - pt - pb) div l)
            \<and> r \<le> 3 \<and> (1 \<le> r \<longleftrightarrow> l \<le> el_scrollHeight m - pt - pb)"
proof -
  define h where "h = el_scrollHeight m - pt - pb"
  have one: "(1 \<le> h div l) = (l \<le> h)"
    using assms(3) by (rule floor_div_ge_one)
  have rows: "inputRef (handleTextareaChange m v) =
      (if 3 \<le> h div l
       then Some (ta\<lparr>rows := Num 3, scrollTop := el_scrollHeight m\<rparr>)
       else Some (ta\<lparr>rows := Num (h div l)\<rparr>))"
    using assms
    by (simp add: handleTextareaChange_def Let_def h_def minTextareaRows_def maxTextareaRows_def)
  show ?thesis
  proof (cases "3 \<le> h div l")
    case True
    then have "l \<le> h" using one by linarith
    with True rows show ?thesis by (simp add: h_def min_def)
  next
    case False
    with rows one show ?thesis by (simp add: h_def min_def)
  qed
qed

theorem textarea_rows_bounds_witness:
  "\<exists>ta'. inputRef (handleTextareaChange
            \<lparr>lineHeight = Num 24, paddingTop = Num 12, paddingBottom = Num 12, el_scrollHeight = 72\<rparr>
            initial_view) = Some ta'
        \<and> rows ta' = Num 2"
  using textarea_rows_bounds
          [of initial_view "\<lparr>ta_value = [], rows = Num 1, scrollTop = 0, focused = False\<rparr>"
              "\<lparr>lineHeight = Num 24, paddingTop = Num 12, paddingBottom = Num 12, el_scrollHeight = 72\<rparr>"
              24 12 12]
  by (auto simp: initial_view_def)

text \<open>
  The claim C8 as it is written fails below one line: for an element that reports the
  scroll height 0, with a line height of 24 pixels and 12 pixels of padding on each side,
  the handler assigns the row count -1.
\<close>

theorem textarea_rows_below_one:
  "inputRef (handleTextareaChange
      \<lparr>lineHeight = Num 24, paddingTop = Num 12, paddingBottom = Num 12, el_scrollHeight = 0\<rparr>
      initial_view)
    = Some \<lparr>ta_value = [], rows = Num (- 1), scrollTop = 0, focused = False\<rparr>"
  by (simp add: handleTextareaChange_def initial_view_def minTextareaRows_def maxTextareaRows_def
        Let_def)



end
